theory Spec2Isabelle
  imports Complex_Main
begin

section \<open>JavaScript values\<close>

text \<open>
  The component is TypeScript compiled to JavaScript; the payload of the card API is
  typed \<open>any\<close>, so what the code reads from it is whatever JSON the server sent.
  A value is therefore one of the JSON shapes or \<open>undefined\<close>. A number is the exact
  rational value of the double that holds it. An object is the list of its own
  properties; a property read takes the first entry with that key.
\<close>

datatype jsval =
    JUndefined
  | JNull
  | JBool bool
  | JNum rat
  | JStr string
  | JArr "jsval list"
  | JObj "(string \<times> jsval) list"

datatype js_error = TypeError

text \<open>
  The property \<open>k\<close> of an object with the properties \<open>ps\<close>: \<open>undefined\<close> when the
  object has none of that name.
\<close>

definition own :: "(string \<times> jsval) list \<Rightarrow> string \<Rightarrow> jsval" where
  "own ps k = (case map_of ps k of None \<Rightarrow> JUndefined | Some v \<Rightarrow> v)"

text \<open>
  The property read \<open>v.k\<close>, for the property names this component reads (\<open>Int64\<close>,
  \<open>String\<close> and the card fields, none of which a built-in prototype defines): on
  \<open>undefined\<close> and \<open>null\<close> it throws a TypeError, on an object it is the property or
  \<open>undefined\<close>, on every other value it is \<open>undefined\<close>.
\<close>

fun js_get :: "jsval \<Rightarrow> string \<Rightarrow> js_error + jsval" where
  "js_get JUndefined k = Inl TypeError"
| "js_get JNull k = Inl TypeError"
| "js_get (JObj ps) k = Inr (own ps k)"
| "js_get (JBool b) k = Inr JUndefined"
| "js_get (JNum n) k = Inr JUndefined"
| "js_get (JStr s) k = Inr JUndefined"
| "js_get (JArr vs) k = Inr JUndefined"

text \<open>
  The element read \<open>xs[i]\<close> on an array of strings at an integer index: outside
  \<open>0 .. length - 1\<close> JavaScript yields \<open>undefined\<close> and throws nothing.
\<close>

definition js_index :: "string list \<Rightarrow> int \<Rightarrow> jsval" where
  "js_index xs i = (if 0 \<le> i \<and> i < int (length xs) then JStr (xs ! nat i) else JUndefined)"

text \<open>Sequencing of computations that may throw: the first exception ends the evaluation.\<close>

definition bind_err :: "js_error + 'a \<Rightarrow> ('a \<Rightarrow> js_error + 'b) \<Rightarrow> js_error + 'b" where
  "bind_err m f = (case m of Inl e \<Rightarrow> Inl e | Inr x \<Rightarrow> f x)"

subsection \<open>The product of an integer with the literal 0.01\<close>

text \<open>
  \<open>offsetHeight\<close> and \<open>offsetWidth\<close> are non-negative integers, and \<open>0.01\<close> is the double
  \<open>5764607523034235 / 2 ^ 59\<close>. The product of the two is the exact product rounded to
  53 significant bits, ties to even; \<open>excess_bits n\<close> is the number of low bits of \<open>n\<close>
  that do not fit into 53. The integer itself is below \<open>2 ^ 53\<close>, as every offset is,
  and so is a double as it stands.
\<close>

fun excess_bits :: "nat \<Rightarrow> nat" where
  "excess_bits n = (if n < 2 ^ 53 then 0 else Suc (excess_bits (n div 2)))"

declare excess_bits.simps [simp del]

definition round_to_53 :: "nat \<Rightarrow> nat" where
  "round_to_53 n =
     (let s = excess_bits n; q = n div 2 ^ s; r = n mod 2 ^ s
      in if 2 ^ s < 2 * r \<or> (2 * r = 2 ^ s \<and> odd q) then (q + 1) * 2 ^ s else q * 2 ^ s)"

definition times_0_01 :: "nat \<Rightarrow> rat" where
  "times_0_01 h = of_nat (round_to_53 (h * 5764607523034235)) / 2 ^ 59"

section \<open>The data of the component\<close>

text \<open>
  \<open>ICardProtoData\<close>. The interface declares strings and numbers, but the record is
  filled from an untyped payload, so each field holds a JavaScript value; a missing
  property is \<open>JUndefined\<close>. The fields \<open>type\<close>, \<open>set\<close> and \<open>id\<close> carry a prime.
\<close>

record ICardProtoData =
  type' :: jsval
  effect :: jsval
  name :: jsval
  rarity :: jsval
  god :: jsval
  set' :: jsval
  tribe :: jsval
  mana :: jsval
  id' :: jsval
  attack :: jsval
  health :: jsval
  art_id :: jsval

definition legacyQualities :: "string list" where
  "legacyQualities =
     [''plain'', ''plain'', ''bronze'', ''iron'', ''meteorite'', ''shadow'', ''gold'', ''diamond'']"

definition qualities :: "string list" where
  "qualities = [''diamond'', ''gold'', ''shadow'', ''meteorite'', ''plain'']"

text \<open>
  The state of a \<open>CompositedCard\<close>: its five reactive properties, its own fields, and
  \<open>requestedUpdates\<close>, the number of times the code of the component has called
  \<open>this.requestUpdate()\<close> so far.
\<close>

record CompositedCard =
  protoId :: jsval
  quality :: int
  inputProtoData :: "ICardProtoData option"
  responsiveSrcsetSizes :: jsval
  useLegacyQualityMapping :: bool
  protoCardData :: ICardProtoData
  ch :: rat
  cw :: rat
  loading :: bool
  requestedUpdates :: nat

definition requestUpdate :: "CompositedCard \<Rightarrow> CompositedCard" where
  "requestUpdate this = this\<lparr>requestedUpdates := Suc (requestedUpdates this)\<rparr>"

section \<open>Construction\<close>

text \<open>
  The property initialisers run first: \<open>quality = 5\<close>, \<open>useLegacyQualityMapping = false\<close>
  and the empty \<open>protoCardData\<close>. \<open>protoId\<close>, \<open>inputProtoData\<close> and
  \<open>responsiveSrcsetSizes\<close> have none and are \<open>undefined\<close>. \<open>ch\<close>, \<open>cw\<close> and \<open>loading\<close>
  have none either; the constructor body assigns them before anything reads them, and
  the record holds 0 and \<open>False\<close> (\<open>undefined\<close> is falsy) until then.
\<close>

definition emptyProtoCardData :: ICardProtoData where
  "emptyProtoCardData =
     \<lparr>type' = JStr '''', effect = JStr '''', name = JStr '''', rarity = JStr '''',
      god = JStr '''', set' = JStr '''', tribe = JStr '''', mana = JStr '''', id' = JStr '''',
      attack = JNull, health = JNull, art_id = JStr ''''\<rparr>"

definition propertyInitialisers :: CompositedCard where
  "propertyInitialisers =
     \<lparr>protoId = JUndefined, quality = 5, inputProtoData = None,
      responsiveSrcsetSizes = JUndefined, useLegacyQualityMapping = False,
      protoCardData = emptyProtoCardData, ch = 0, cw = 0, loading = False,
      requestedUpdates = 0\<rparr>"

text \<open>
  The constructor body; \<open>hostHeight\<close> and \<open>hostWidth\<close> are \<open>this.offsetHeight\<close> and
  \<open>this.offsetWidth\<close> of the host element at that moment.
\<close>

definition constructorBody :: "nat \<Rightarrow> nat \<Rightarrow> CompositedCard \<Rightarrow> CompositedCard" where
  "constructorBody hostHeight hostWidth this =
     this\<lparr>loading := True, quality := 0,
          ch := times_0_01 hostHeight, cw := times_0_01 hostWidth\<rparr>"

definition constructor :: "nat \<Rightarrow> nat \<Rightarrow> CompositedCard" where
  "constructor hostHeight hostWidth = constructorBody hostHeight hostWidth propertyInitialisers"

section \<open>Resize handling\<close>

text \<open>
  A resize entry, as far as it matters here. \<open>contentHeight\<close> and \<open>contentWidth\<close> are
  the content size that the observer measured on the host and reports in the entry
  (\<open>contentRect.height\<close> and \<open>contentRect.width\<close>). \<open>handleResize\<close>, which is typed for
  a \<open>UIEvent\<close>, reads neither; it reads the children of the shadow root of the target,
  each with its \<open>offsetHeight\<close> and \<open>offsetWidth\<close>. A target without shadow root
  (\<open>shadowRoot\<close> is \<open>null\<close>) is \<open>None\<close>.
\<close>

record HTMLElement =
  offsetHeight :: nat
  offsetWidth :: nat

record UIEvent =
  contentHeight :: rat
  contentWidth :: rat
  shadowRootChildren :: "HTMLElement list option"

text \<open>
  \<open>shadowRoot.children[0]\<close>, the container: reading \<open>children\<close> of \<open>null\<close> throws,
  and with no child the container is \<open>undefined\<close>, so that reading its \<open>offsetHeight\<close>
  throws. \<open>None\<close> stands for both.
\<close>

definition container :: "UIEvent \<Rightarrow> HTMLElement option" where
  "container event =
     (case shadowRootChildren event of
        None \<Rightarrow> None
      | Some [] \<Rightarrow> None
      | Some (child # _) \<Rightarrow> Some child)"

text \<open>\<open>handleResize\<close>; it throws before its first assignment or not at all.\<close>

definition handleResize :: "UIEvent \<Rightarrow> CompositedCard \<Rightarrow> js_error + CompositedCard" where
  "handleResize event this =
     (case container event of
        None \<Rightarrow> Inl TypeError
      | Some c \<Rightarrow>
          Inr (requestUpdate
                 (this\<lparr>ch := times_0_01 (offsetHeight c), cw := times_0_01 (offsetWidth c)\<rparr>)))"

text \<open>
  The callback of the shared \<open>ResizeObserver\<close>, for the entries whose target is this
  card: \<open>entries.forEach\<close> in order. Nothing catches an exception of \<open>handleResize\<close>:
  it ends the loop, so that the entries after it are not handled, while what the
  entries before it have assigned stays. The result is the card as the loop left it,
  and the exception if one ended the loop.
\<close>

fun ro :: "UIEvent list \<Rightarrow> CompositedCard \<Rightarrow> CompositedCard \<times> js_error option" where
  "ro [] el = (el, None)"
| "ro (entry # entries) el =
     (case handleResize entry el of
        Inl e \<Rightarrow> (el, Some e)
      | Inr el' \<Rightarrow> ro entries el')"

section \<open>Card data\<close>

text \<open>\<open>fetchProtoData\<close>, up to the call of \<open>fetch\<close>: the assignment runs synchronously.\<close>

definition fetchProtoData :: "CompositedCard \<Rightarrow> CompositedCard" where
  "fetchProtoData this = this\<lparr>loading := True\<rparr>"

text \<open>
  The object literal that the callback of \<open>getProtoDataFromApi\<close> builds from the
  response body \<open>data\<close>. The destructuring pattern throws on \<open>undefined\<close> and \<open>null\<close> and
  reads twelve properties otherwise; \<open>attack.Int64\<close>, \<open>health.Int64\<close> and
  \<open>tribe.String\<close> are property reads in turn.
\<close>

definition protoCardDataFromApi :: "jsval \<Rightarrow> js_error + ICardProtoData" where
  "protoCardDataFromApi data =
     bind_err (js_get data ''id'') (\<lambda>id.
     bind_err (js_get data ''type'') (\<lambda>type.
     bind_err (js_get data ''attack'') (\<lambda>attack.
     bind_err (js_get data ''health'') (\<lambda>health.
     bind_err (js_get data ''effect'') (\<lambda>effect.
     bind_err (js_get data ''name'') (\<lambda>name.
     bind_err (js_get data ''rarity'') (\<lambda>rarity.
     bind_err (js_get data ''god'') (\<lambda>god.
     bind_err (js_get data ''mana'') (\<lambda>mana.
     bind_err (js_get data ''set'') (\<lambda>set.
     bind_err (js_get data ''tribe'') (\<lambda>tribe.
     bind_err (js_get data ''art_id'') (\<lambda>art_id.
     bind_err (js_get attack ''Int64'') (\<lambda>attack_Int64.
     bind_err (js_get health ''Int64'') (\<lambda>health_Int64.
     bind_err (js_get tribe ''String'') (\<lambda>tribe_String.
       Inr \<lparr>type' = type, effect = effect, name = name, rarity = rarity, god = god,
            set' = set, tribe = tribe_String, mana = mana, id' = id,
            attack = attack_Int64, health = health_Int64,
            art_id = art_id\<rparr>)))))))))))))))"

text \<open>
  The callback itself, run when the fetch has resolved with \<open>data\<close>. The record is
  assigned only after the whole literal has been evaluated, so an exception leaves
  the card as it was, and the promise of \<open>getProtoDataFromApi\<close> rejects.
\<close>

definition getProtoDataFromApi_then :: "jsval \<Rightarrow> CompositedCard \<Rightarrow> js_error + CompositedCard" where
  "getProtoDataFromApi_then data this =
     bind_err (protoCardDataFromApi data) (\<lambda>d.
       Inr (requestUpdate (this\<lparr>protoCardData := d, loading := False\<rparr>)))"

text \<open>\<open>{ ...this.inputProtoData }\<close>: the spread of \<open>undefined\<close> is the empty object.\<close>

definition spread :: "ICardProtoData option \<Rightarrow> ICardProtoData" where
  "spread input =
     (case input of
        Some d \<Rightarrow> d
      | None \<Rightarrow>
          \<lparr>type' = JUndefined, effect = JUndefined, name = JUndefined, rarity = JUndefined,
           god = JUndefined, set' = JUndefined, tribe = JUndefined, mana = JUndefined,
           id' = JUndefined, attack = JUndefined, health = JUndefined,
           art_id = JUndefined\<rparr>)"

definition getProtoDataFromInput :: "CompositedCard \<Rightarrow> CompositedCard" where
  "getProtoDataFromInput this =
     requestUpdate (this\<lparr>protoCardData := spread (inputProtoData this), loading := False\<rparr>)"

section \<open>Rendering\<close>

text \<open>
  The templates live in \<open>./templating\<close>; \<open>render\<close> only decides which of them it calls,
  with which arguments and in which order. A layer is such a call: the constructor
  is the template, its arguments are the properties of the object passed to it.
\<close>

datatype LayerDescriptor =
    loadingTemplate
  | baseArtworkLayersTemplate jsval jsval
  | mythicImageLayersTemplate jsval ICardProtoData
  | nonMythicImageLayersTemplate jsval jsval ICardProtoData
  | textLayersTemplate rat rat ICardProtoData jsval

text \<open>
  The constant \<open>qualityName\<close> of \<open>render\<close>, as a function of \<open>this.quality\<close> and
  \<open>this.useLegacyQualityMapping\<close>.
\<close>

definition qualityName :: "int \<Rightarrow> bool \<Rightarrow> jsval" where
  "qualityName q useLegacy =
     (if useLegacy then js_index legacyQualities q else js_index qualities (q - 1))"

definition render :: "CompositedCard \<Rightarrow> LayerDescriptor list" where
  "render this =
     (let qualityName' = qualityName (quality this) (useLegacyQualityMapping this);
          isMythicCard = (rarity (protoCardData this) = JStr ''mythic'')
      in if loading this then [loadingTemplate]
         else [baseArtworkLayersTemplate (id' (protoCardData this)) (responsiveSrcsetSizes this),
               if isMythicCard
               then mythicImageLayersTemplate (responsiveSrcsetSizes this) (protoCardData this)
               else nonMythicImageLayersTemplate qualityName' (responsiveSrcsetSizes this)
                      (protoCardData this),
               textLayersTemplate (ch this) (cw this) (protoCardData this)
                 (set' (protoCardData this))])"

section \<open>The component among its collaborators\<close>

text \<open>
  The card together with the fetches it has started and that have not settled yet:
  \<open>inflight\<close> holds, oldest first, the \<open>protoId\<close> each was started for.
\<close>

record world =
  card :: CompositedCard
  inflight :: "jsval list"

text \<open>
  \<open>getProtoDataFromApi\<close> up to the pending promise: \<open>fetchProtoData\<close> sets \<open>loading\<close>
  and starts a fetch for the current \<open>protoId\<close>.
\<close>

definition getProtoDataFromApi :: "world \<Rightarrow> world" where
  "getProtoDataFromApi w =
     w\<lparr>card := fetchProtoData (card w), inflight := inflight w @ [protoId (card w)]\<rparr>"

text \<open>\<open>updated\<close>: \<open>changedProps.forEach\<close> over the names of the changed properties.\<close>

fun updated :: "string list \<Rightarrow> world \<Rightarrow> world" where
  "updated [] w = w"
| "updated (propName # changedProps) w =
     updated changedProps
       (if propName = ''protoId'' then getProtoDataFromApi w
        else if propName = ''inputProtoData''
          then w\<lparr>card := getProtoDataFromInput (card w)\<rparr>
        else w)"

text \<open>
  What happens to a card: the host assigns a new \<open>protoId\<close> or a new
  \<open>inputProtoData\<close> (LitElement then calls \<open>updated\<close> with that name), the resize
  observer delivers entries, or the fetch at position \<open>k\<close> of \<open>inflight\<close> settles: it
  resolves with a response body, or it rejects. Nothing catches an exception of a
  handler; the card stays as the handler left it when it threw.
\<close>

datatype event =
    SetProtoId jsval
  | SetInputProtoData "ICardProtoData option"
  | ResizeEntries "UIEvent list"
  | FetchResolved nat jsval
  | FetchRejected nat

definition drop_nth :: "nat \<Rightarrow> 'a list \<Rightarrow> 'a list" where
  "drop_nth k xs = take k xs @ drop (Suc k) xs"

fun step :: "event \<Rightarrow> world \<Rightarrow> world" where
  "step (SetProtoId p) w = updated [''protoId''] (w\<lparr>card := (card w)\<lparr>protoId := p\<rparr>\<rparr>)"
| "step (SetInputProtoData d) w =
     updated [''inputProtoData''] (w\<lparr>card := (card w)\<lparr>inputProtoData := d\<rparr>\<rparr>)"
| "step (ResizeEntries entries) w = w\<lparr>card := fst (ro entries (card w))\<rparr>"
| "step (FetchResolved k data) w =
     (if k < length (inflight w)
      then (case getProtoDataFromApi_then data (card w) of
              Inl e \<Rightarrow> w\<lparr>inflight := drop_nth k (inflight w)\<rparr>
            | Inr el \<Rightarrow> w\<lparr>card := el, inflight := drop_nth k (inflight w)\<rparr>)
      else w)"
| "step (FetchRejected k) w =
     (if k < length (inflight w) then w\<lparr>inflight := drop_nth k (inflight w)\<rparr> else w)"

fun run :: "event list \<Rightarrow> world \<Rightarrow> world" where
  "run [] w = w"
| "run (e # es) w = run es (step e w)"

section \<open>Sample data\<close>

text \<open>
  A response body of the card API, in the shape the server sends it: \<open>attack\<close>,
  \<open>health\<close> and \<open>tribe\<close> arrive wrapped, the other fields plain. The name \<open>n\<close> and the
  values \<open>a\<close>, \<open>h\<close> and \<open>t\<close> of \<open>attack\<close>, \<open>health\<close> and \<open>tribe\<close> are left open.
\<close>

definition body :: "jsval \<Rightarrow> jsval \<Rightarrow> jsval \<Rightarrow> jsval \<Rightarrow> jsval" where
  "body n a h t =
     JObj [(''id'', JNum 87), (''name'', n), (''effect'', JStr ''Roar: heal 2''),
           (''god'', JStr ''nature''), (''rarity'', JStr ''common''), (''tribe'', t),
           (''mana'', JNum 2), (''attack'', a), (''health'', h),
           (''type'', JStr ''creature''), (''set'', JStr ''core''), (''art_id'', JStr ''87'')]"

text \<open>The record that the component stores for such a body when all goes well.\<close>

definition stored :: "jsval \<Rightarrow> jsval \<Rightarrow> jsval \<Rightarrow> jsval \<Rightarrow> ICardProtoData" where
  "stored n a h t =
     \<lparr>type' = JStr ''creature'', effect = JStr ''Roar: heal 2'', name = n,
      rarity = JStr ''common'', god = JStr ''nature'', set' = JStr ''core'', tribe = t,
      mana = JNum 2, id' = JNum 87, attack = a, health = h,
      art_id = JStr ''87''\<rparr>"

section \<open>The quality name\<close>

lemma length_legacyQualities: "length legacyQualities = 8"
  by (simp add: legacyQualities_def)

lemma length_qualities: "length qualities = 5"
  by (simp add: qualities_def)

lemma qualityName_legacy_table:
  "map (\<lambda>q. qualityName q True) [0, 1, 2, 3, 4, 5, 6, 7] =
     map JStr [''plain'', ''plain'', ''bronze'', ''iron'', ''meteorite'', ''shadow'', ''gold'',
       ''diamond'']"
  by (simp add: qualityName_def js_index_def legacyQualities_def)

lemma qualityName_table:
  "map (\<lambda>q. qualityName q False) [1, 2, 3, 4, 5] =
     map JStr [''diamond'', ''gold'', ''shadow'', ''meteorite'', ''plain'']"
  by (simp add: qualityName_def js_index_def qualities_def)

lemma qualityName_outside:
  "q < 1 \<or> 5 < q \<Longrightarrow> qualityName q False = JUndefined"
  by (auto simp: qualityName_def js_index_def length_qualities)

text \<open>
  C8. With the legacy mapping on, every quality from 0 to 7 resolves to the entry of
  \<open>legacyQualities\<close> at that index, and 0 and 1 both resolve to \<open>plain\<close>.
\<close>

theorem legacy_quality_name:
  assumes "0 \<le> q" and "q \<le> 7"
  shows "qualityName q True = JStr (legacyQualities ! nat q)
       \<and> qualityName 0 True = JStr ''plain'' \<and> qualityName 1 True = JStr ''plain''"
  using assms by (simp add: qualityName_def js_index_def length_legacyQualities)
    (simp add: legacyQualities_def)

theorem legacy_quality_name_witness:
  "(0::int) \<le> 6 \<and> (6::int) \<le> 7 \<and> qualityName 6 True = JStr ''gold''
     \<and> qualityName 0 True = JStr ''plain'' \<and> qualityName 1 True = JStr ''plain''"
  using legacy_quality_name [of 6] by (simp add: legacyQualities_def)

text \<open>
  C1, as the code has it. With the legacy mapping off, every quality from 1 to 5
  resolves to the entry of \<open>qualities\<close> at index \<open>quality - 1\<close>; quality 1 is
  \<open>diamond\<close> and quality 5 is \<open>plain\<close>.
\<close>

theorem quality_name:
  assumes "1 \<le> q" and "q \<le> 5"
  shows "qualityName q False = JStr (qualities ! nat (q - 1))
       \<and> qualityName 1 False = JStr ''diamond'' \<and> qualityName 5 False = JStr ''plain''"
  using assms by (simp add: qualityName_def js_index_def length_qualities)
    (simp add: qualities_def)

theorem quality_name_witness:
  "(1::int) \<le> 3 \<and> (3::int) \<le> 5 \<and> qualityName 3 False = JStr ''shadow''
     \<and> qualityName 1 False = JStr ''diamond'' \<and> qualityName 5 False = JStr ''plain''"
  using quality_name [of 3] by (simp add: qualities_def)

text \<open>
  C1, as the claim words its two examples: quality 1 does not resolve to \<open>plain\<close>
  and quality 5 does not resolve to \<open>diamond\<close>.
\<close>

theorem quality_name_examples_swapped:
  "qualityName 1 False \<noteq> JStr ''plain'' \<and> qualityName 5 False \<noteq> JStr ''diamond''"
  by (simp add: qualityName_def js_index_def qualities_def)

section \<open>Construction and rendering\<close>

lemma render_loading: "loading this \<Longrightarrow> render this = [loadingTemplate]"
  by (simp add: render_def)

lemma render_loaded:
  "\<not> loading this \<Longrightarrow>
   render this =
     [baseArtworkLayersTemplate (id' (protoCardData this)) (responsiveSrcsetSizes this),
      if rarity (protoCardData this) = JStr ''mythic''
      then mythicImageLayersTemplate (responsiveSrcsetSizes this) (protoCardData this)
      else nonMythicImageLayersTemplate
             (qualityName (quality this) (useLegacyQualityMapping this))
             (responsiveSrcsetSizes this) (protoCardData this),
      textLayersTemplate (ch this) (cw this) (protoCardData this) (set' (protoCardData this))]"
  by (simp add: render_def)

lemma times_0_01_zero: "times_0_01 0 = 0"
  by (simp add: times_0_01_def round_to_53_def excess_bits.simps)

text \<open>
  C5. While \<open>loading\<close> is true, \<open>render\<close> emits the loading placeholder and nothing
  else, whatever the card data, the quality, the mapping flag and the size units are.
\<close>

theorem render_while_loading:
  assumes "loading this"
  shows "render this = [loadingTemplate] \<and> length (render this) = 1
       \<and> render (this\<lparr>protoCardData := d, quality := q, useLegacyQualityMapping := legacy,
            ch := x, cw := y, responsiveSrcsetSizes := sizes\<rparr>) = [loadingTemplate]"
  using assms by (simp add: render_loading)

theorem render_while_loading_witness:
  "loading (constructor 0 0) \<and> render (constructor 0 0) = [loadingTemplate]
     \<and> length (render (constructor 0 0)) = 1
     \<and> render ((constructor 0 0)\<lparr>protoCardData := emptyProtoCardData\<lparr>rarity := JStr ''mythic''\<rparr>,
          quality := 7, useLegacyQualityMapping := True, ch := 2, cw := 1,
          responsiveSrcsetSizes := JStr ''100vw''\<rparr>) = [loadingTemplate]"
  using render_while_loading [where this = "constructor 0 0"
      and d = "emptyProtoCardData\<lparr>rarity := JStr ''mythic''\<rparr>" and q = 7 and legacy = True
      and x = 2 and y = 1 and sizes = "JStr ''100vw''"]
  by (simp add: constructor_def constructorBody_def)

text \<open>
  C6. Once \<open>loading\<close> is false, \<open>render\<close> emits three layers: the base artwork, then
  the mythic overlay if the rarity of the card is the string \<open>mythic\<close> and otherwise
  the non-mythic overlay with the quality name, then the text.
\<close>

theorem render_when_loaded:
  assumes "\<not> loading this"
  shows "length (render this) = 3
       \<and> render this ! 0 =
           baseArtworkLayersTemplate (id' (protoCardData this)) (responsiveSrcsetSizes this)
       \<and> render this ! 1 =
           (if rarity (protoCardData this) = JStr ''mythic''
            then mythicImageLayersTemplate (responsiveSrcsetSizes this) (protoCardData this)
            else nonMythicImageLayersTemplate
                   (qualityName (quality this) (useLegacyQualityMapping this))
                   (responsiveSrcsetSizes this) (protoCardData this))
       \<and> render this ! 2 =
           textLayersTemplate (ch this) (cw this) (protoCardData this)
             (set' (protoCardData this))"
  using assms by (simp add: render_loaded)

theorem render_when_loaded_witness:
  "\<not> loading (getProtoDataFromInput
        ((constructor 0 0)\<lparr>quality := 4,
           inputProtoData := Some (emptyProtoCardData\<lparr>rarity := JStr ''mythic''\<rparr>)\<rparr>))
   \<and> render (getProtoDataFromInput
        ((constructor 0 0)\<lparr>quality := 4,
           inputProtoData := Some (emptyProtoCardData\<lparr>rarity := JStr ''mythic''\<rparr>)\<rparr>)) =
       [baseArtworkLayersTemplate (JStr '''') JUndefined,
        mythicImageLayersTemplate JUndefined (emptyProtoCardData\<lparr>rarity := JStr ''mythic''\<rparr>),
        textLayersTemplate 0 0 (emptyProtoCardData\<lparr>rarity := JStr ''mythic''\<rparr>) (JStr '''')]
   \<and> \<not> loading (getProtoDataFromInput
        ((constructor 0 0)\<lparr>quality := 4,
           inputProtoData := Some (emptyProtoCardData\<lparr>rarity := JStr ''rare''\<rparr>)\<rparr>))
   \<and> render (getProtoDataFromInput
        ((constructor 0 0)\<lparr>quality := 4,
           inputProtoData := Some (emptyProtoCardData\<lparr>rarity := JStr ''rare''\<rparr>)\<rparr>)) =
       [baseArtworkLayersTemplate (JStr '''') JUndefined,
        nonMythicImageLayersTemplate (JStr ''meteorite'') JUndefined
          (emptyProtoCardData\<lparr>rarity := JStr ''rare''\<rparr>),
        textLayersTemplate 0 0 (emptyProtoCardData\<lparr>rarity := JStr ''rare''\<rparr>) (JStr '''')]"
  using
    render_when_loaded [of "getProtoDataFromInput
        ((constructor 0 0)\<lparr>quality := 4,
           inputProtoData := Some (emptyProtoCardData\<lparr>rarity := JStr ''mythic''\<rparr>)\<rparr>)"]
    render_when_loaded [of "getProtoDataFromInput
        ((constructor 0 0)\<lparr>quality := 4,
           inputProtoData := Some (emptyProtoCardData\<lparr>rarity := JStr ''rare''\<rparr>)\<rparr>)"]
  by (simp add: render_loaded getProtoDataFromInput_def requestUpdate_def spread_def
      constructor_def constructorBody_def propertyInitialisers_def emptyProtoCardData_def
      times_0_01_zero qualityName_def js_index_def qualities_def)

subsection \<open>Nothing but the host changes the quality\<close>

lemma handleResize_keeps:
  "handleResize event this = Inr el \<Longrightarrow>
   quality el = quality this \<and> useLegacyQualityMapping el = useLegacyQualityMapping this
   \<and> protoCardData el = protoCardData this \<and> loading el = loading this"
  by (auto simp: handleResize_def requestUpdate_def split: option.splits)

lemma ro_keeps:
  "quality (fst (ro entries this)) = quality this
   \<and> useLegacyQualityMapping (fst (ro entries this)) = useLegacyQualityMapping this
   \<and> protoCardData (fst (ro entries this)) = protoCardData this
   \<and> loading (fst (ro entries this)) = loading this"
proof (induction entries arbitrary: this)
  case Nil
  then show ?case by simp
next
  case (Cons entry entries)
  show ?case
  proof (cases "handleResize entry this")
    case (Inl e)
    then show ?thesis by simp
  next
    case (Inr mid)
    from handleResize_keeps [OF Inr] Cons.IH [of mid] Inr show ?thesis by simp
  qed
qed

lemma getProtoDataFromApi_then_keeps:
  "getProtoDataFromApi_then data this = Inr el \<Longrightarrow>
   quality el = quality this \<and> useLegacyQualityMapping el = useLegacyQualityMapping this"
  by (auto simp: getProtoDataFromApi_then_def requestUpdate_def bind_err_def split: sum.splits)

lemma updated_keeps:
  "quality (card (updated changedProps w)) = quality (card w)
   \<and> useLegacyQualityMapping (card (updated changedProps w)) = useLegacyQualityMapping (card w)"
  by (induction changedProps arbitrary: w)
     (simp_all add: getProtoDataFromApi_def fetchProtoData_def getProtoDataFromInput_def
        requestUpdate_def)

lemma step_keeps:
  "quality (card (step e w)) = quality (card w)
   \<and> useLegacyQualityMapping (card (step e w)) = useLegacyQualityMapping (card w)"
proof (cases e)
  case (SetProtoId p)
  then show ?thesis by (simp only: step.simps updated_keeps) simp
next
  case (SetInputProtoData d)
  then show ?thesis by (simp only: step.simps updated_keeps) simp
next
  case (ResizeEntries entries)
  then show ?thesis by (simp add: ro_keeps)
next
  case (FetchResolved k data)
  then show ?thesis by (auto split: sum.splits dest: getProtoDataFromApi_then_keeps)
next
  case (FetchRejected k)
  then show ?thesis by simp
qed

lemma run_keeps:
  "quality (card (run es w)) = quality (card w)
   \<and> useLegacyQualityMapping (card (run es w)) = useLegacyQualityMapping (card w)"
  by (induction es arbitrary: w) (simp_all add: step_keeps)

lemma constructor_fields:
  "loading (constructor h w)" "quality (constructor h w) = 0"
  "\<not> useLegacyQualityMapping (constructor h w)"
  by (simp_all add: constructor_def constructorBody_def propertyInitialisers_def)

text \<open>
  C10. The property initialiser gives \<open>quality\<close> the value 5 and the constructor body
  overwrites it with 0, whatever it was; a newly constructed card is loading, has
  quality 0 and the legacy mapping off. Its quality name is \<open>qualities[-1]\<close>, which is
  \<open>undefined\<close>, and stays so through whatever happens to the card short of the host
  assigning a quality; so it is in the render that follows the first card data.
\<close>

theorem constructed_quality_zero:
  "quality propertyInitialisers = 5
   \<and> quality (constructorBody h w this) = 0 \<and> loading (constructorBody h w this)
   \<and> loading (constructor h w) \<and> quality (constructor h w) = 0
   \<and> \<not> useLegacyQualityMapping (constructor h w)
   \<and> qualityName (quality (constructor h w)) (useLegacyQualityMapping (constructor h w)) =
       js_index qualities (- 1)
   \<and> js_index qualities (- 1) = JUndefined
   \<and> qualityName (quality (card (run es \<lparr>card = constructor h w, inflight = []\<rparr>)))
       (useLegacyQualityMapping (card (run es \<lparr>card = constructor h w, inflight = []\<rparr>))) =
       JUndefined
   \<and> render (card (step (SetInputProtoData (Some (emptyProtoCardData\<lparr>rarity := JStr ''rare''\<rparr>)))
        \<lparr>card = constructor h w, inflight = []\<rparr>)) ! 1 =
       nonMythicImageLayersTemplate JUndefined JUndefined
         (emptyProtoCardData\<lparr>rarity := JStr ''rare''\<rparr>)"
proof -
  have init: "quality propertyInitialisers = 5"
    by (simp add: propertyInitialisers_def)
  have body: "quality (constructorBody h w this) = 0 \<and> loading (constructorBody h w this)"
    by (simp add: constructorBody_def)
  have name: "qualityName (quality (constructor h w))
      (useLegacyQualityMapping (constructor h w)) = js_index qualities (- 1)"
    by (simp add: constructor_fields qualityName_def)
  have undef: "js_index qualities (- 1) = JUndefined"
    by (simp add: js_index_def)
  have later: "qualityName (quality (card (run es \<lparr>card = constructor h w, inflight = []\<rparr>)))
       (useLegacyQualityMapping (card (run es \<lparr>card = constructor h w, inflight = []\<rparr>))) =
       JUndefined"
    by (simp add: run_keeps constructor_fields qualityName_outside)
  have shown: "render (card (step (SetInputProtoData
        (Some (emptyProtoCardData\<lparr>rarity := JStr ''rare''\<rparr>)))
        \<lparr>card = constructor h w, inflight = []\<rparr>)) ! 1 =
       nonMythicImageLayersTemplate JUndefined JUndefined
         (emptyProtoCardData\<lparr>rarity := JStr ''rare''\<rparr>)"
    by (simp add: render_def getProtoDataFromInput_def requestUpdate_def spread_def
        constructor_def constructorBody_def propertyInitialisers_def qualityName_outside)
  from init body name undef later shown constructor_fields [of h w] show ?thesis
    by blast
qed

text \<open>
  C2, as the code has it. With quality 0 and the legacy mapping off nothing guards
  the lookup: the quality name is \<open>undefined\<close>, no exception is thrown, and once the
  card has loaded and is not mythic that \<open>undefined\<close> is what the non-mythic overlay
  receives.
\<close>

theorem quality_zero_is_undefined:
  assumes "quality this = 0" and "\<not> useLegacyQualityMapping this"
    and "\<not> loading this" and "rarity (protoCardData this) \<noteq> JStr ''mythic''"
  shows "qualityName (quality this) (useLegacyQualityMapping this) = JUndefined
       \<and> render this =
           [baseArtworkLayersTemplate (id' (protoCardData this)) (responsiveSrcsetSizes this),
            nonMythicImageLayersTemplate JUndefined (responsiveSrcsetSizes this)
              (protoCardData this),
            textLayersTemplate (ch this) (cw this) (protoCardData this)
              (set' (protoCardData this))]"
  using assms by (simp add: render_loaded qualityName_outside)

theorem quality_zero_is_undefined_witness:
  "quality (getProtoDataFromInput (constructor 0 0)) = 0
   \<and> \<not> useLegacyQualityMapping (getProtoDataFromInput (constructor 0 0))
   \<and> \<not> loading (getProtoDataFromInput (constructor 0 0))
   \<and> rarity (protoCardData (getProtoDataFromInput (constructor 0 0))) \<noteq> JStr ''mythic''
   \<and> render (getProtoDataFromInput (constructor 0 0)) =
       [baseArtworkLayersTemplate JUndefined JUndefined,
        nonMythicImageLayersTemplate JUndefined JUndefined (spread None),
        textLayersTemplate 0 0 (spread None) JUndefined]"
  using quality_zero_is_undefined [of "getProtoDataFromInput (constructor 0 0)"]
  by (simp add: getProtoDataFromInput_def requestUpdate_def spread_def constructor_def
      constructorBody_def propertyInitialisers_def times_0_01_zero)

text \<open>
  C2, as the claim words it. At quality 0 with the legacy mapping off the name is
  neither an error nor the name at the nearest valid quality (1, \<open>diamond\<close>): it is
  \<open>undefined\<close>, and \<open>render\<close> hands it on.
\<close>

theorem quality_zero_not_guarded:
  "qualityName 0 False = JUndefined \<and> qualityName 0 False \<noteq> qualityName 1 False
   \<and> render (getProtoDataFromInput (constructor 0 0)) ! 1 =
       nonMythicImageLayersTemplate JUndefined JUndefined (spread None)"
  by (simp add: qualityName_def js_index_def qualities_def render_def
      getProtoDataFromInput_def requestUpdate_def spread_def constructor_def
      constructorBody_def propertyInitialisers_def)

section \<open>Card data from the API\<close>

lemma protoCardDataFromApi_object:
  assumes "js_get (own ps ''attack'') ''Int64'' = Inr a"
    and "js_get (own ps ''health'') ''Int64'' = Inr h"
    and "js_get (own ps ''tribe'') ''String'' = Inr t"
  shows "protoCardDataFromApi (JObj ps) =
     Inr \<lparr>type' = own ps ''type'', effect = own ps ''effect'', name = own ps ''name'',
          rarity = own ps ''rarity'', god = own ps ''god'', set' = own ps ''set'', tribe = t,
          mana = own ps ''mana'', id' = own ps ''id'', attack = a, health = h,
          art_id = own ps ''art_id''\<rparr>"
  using assms by (simp add: protoCardDataFromApi_def bind_err_def)

lemma js_error_is_TypeError: "(e::js_error) = TypeError"
  by (cases e) simp

lemma protoCardDataFromApi_throws:
  assumes "js_get (own ps ''attack'') ''Int64'' = Inl e
         \<or> js_get (own ps ''health'') ''Int64'' = Inl e
         \<or> js_get (own ps ''tribe'') ''String'' = Inl e"
  shows "protoCardDataFromApi (JObj ps) = Inl TypeError"
  using assms
  by (auto simp: protoCardDataFromApi_def bind_err_def js_error_is_TypeError split: sum.splits)

lemma js_get_nullish: "v = JUndefined \<or> v = JNull \<Longrightarrow> js_get v k = Inl TypeError"
  by auto

lemma own_absent: "map_of ps k = None \<Longrightarrow> own ps k = JUndefined"
  by (simp add: own_def)

lemma own_present: "map_of ps k = Some v \<Longrightarrow> own ps k = v"
  by (simp add: own_def)

lemma own_body:
  "own [(''id'', i), (''name'', n), (''effect'', e), (''god'', g), (''rarity'', r),
        (''tribe'', t), (''mana'', m), (''attack'', a), (''health'', h), (''type'', ty),
        (''set'', s), (''art_id'', ai)] k =
     (if k = ''id'' then i else if k = ''name'' then n else if k = ''effect'' then e
      else if k = ''god'' then g else if k = ''rarity'' then r else if k = ''tribe'' then t
      else if k = ''mana'' then m else if k = ''attack'' then a else if k = ''health'' then h
      else if k = ''type'' then ty else if k = ''set'' then s
      else if k = ''art_id'' then ai else JUndefined)"
  by (simp add: own_def)

lemma protoCardDataFromApi_body:
  assumes "js_get a ''Int64'' = Inr a'" and "js_get h ''Int64'' = Inr h'"
    and "js_get t ''String'' = Inr t'"
  shows "protoCardDataFromApi (body n a h t) = Inr (stored n a' h' t')"
  using assms
  by (simp add: body_def stored_def protoCardDataFromApi_def bind_err_def own_body)

text \<open>
  C7. For a response body that is an object whose \<open>attack\<close>, \<open>health\<close> and \<open>tribe\<close>
  are objects holding \<open>Int64\<close>, \<open>Int64\<close> and \<open>String\<close>, the stored record has these three
  values as \<open>attack\<close>, \<open>health\<close> and \<open>tribe\<close>, and every other field as the body has it;
  the callback stores it, clears \<open>loading\<close> and requests an update.
\<close>

theorem api_data_stored:
  assumes "own ps ''attack'' = JObj a" and "map_of a ''Int64'' = Some n"
    and "own ps ''health'' = JObj h" and "map_of h ''Int64'' = Some m"
    and "own ps ''tribe'' = JObj t" and "map_of t ''String'' = Some s"
  shows "getProtoDataFromApi_then (JObj ps) this =
     Inr (requestUpdate
       (this\<lparr>protoCardData :=
          \<lparr>type' = own ps ''type'', effect = own ps ''effect'', name = own ps ''name'',
           rarity = own ps ''rarity'', god = own ps ''god'', set' = own ps ''set'',
           tribe = s, mana = own ps ''mana'', id' = own ps ''id'', attack = n, health = m,
           art_id = own ps ''art_id''\<rparr>,
          loading := False\<rparr>))"
proof -
  have "js_get (own ps ''attack'') ''Int64'' = Inr n"
    and "js_get (own ps ''health'') ''Int64'' = Inr m"
    and "js_get (own ps ''tribe'') ''String'' = Inr s"
    using assms by (simp_all add: own_present)
  then show ?thesis
    by (simp add: getProtoDataFromApi_then_def protoCardDataFromApi_object bind_err_def)
qed

theorem api_data_stored_witness:
  "getProtoDataFromApi_then
     (body (JStr ''Pyramid Warden'') (JObj [(''Int64'', JNum 5), (''Valid'', JBool True)])
        (JObj [(''Int64'', JNum 3), (''Valid'', JBool True)])
        (JObj [(''String'', JStr ''beast''), (''Valid'', JBool True)]))
     (constructor 0 0) =
   Inr ((constructor 0 0)
     \<lparr>protoCardData := stored (JStr ''Pyramid Warden'') (JNum 5) (JNum 3) (JStr ''beast''),
      loading := False, requestedUpdates := 1\<rparr>)"
  using api_data_stored [of
      "[(''id'', JNum 87), (''name'', JStr ''Pyramid Warden''), (''effect'', JStr ''Roar: heal 2''),
        (''god'', JStr ''nature''), (''rarity'', JStr ''common''),
        (''tribe'', JObj [(''String'', JStr ''beast''), (''Valid'', JBool True)]),
        (''mana'', JNum 2), (''attack'', JObj [(''Int64'', JNum 5), (''Valid'', JBool True)]),
        (''health'', JObj [(''Int64'', JNum 3), (''Valid'', JBool True)]),
        (''type'', JStr ''creature''), (''set'', JStr ''core''), (''art_id'', JStr ''87'')]"
      "[(''Int64'', JNum 5), (''Valid'', JBool True)]" "JNum 5"
      "[(''Int64'', JNum 3), (''Valid'', JBool True)]" "JNum 3"
      "[(''String'', JStr ''beast''), (''Valid'', JBool True)]" "JStr ''beast''"
      "constructor 0 0"]
  by (simp add: own_body body_def stored_def requestUpdate_def constructor_def
      constructorBody_def propertyInitialisers_def)

text \<open>
  C3, as the code has it. No check of the body precedes the reads. Where \<open>attack\<close>,
  \<open>health\<close> and \<open>tribe\<close> are objects, the callback succeeds whatever they hold: a
  missing \<open>Int64\<close> or \<open>String\<close> is stored as \<open>undefined\<close>, \<open>loading\<close> is cleared and an
  update is requested. Where one of the three is \<open>undefined\<close> (absent) or \<open>null\<close>, the
  read of its field throws a TypeError and the card is not touched.
\<close>

theorem absent_envelope_field:
  "(own ps ''attack'' = JObj a \<and> own ps ''health'' = JObj h \<and> own ps ''tribe'' = JObj t \<longrightarrow>
      (\<exists>d. getProtoDataFromApi_then (JObj ps) this =
             Inr (requestUpdate (this\<lparr>protoCardData := d, loading := False\<rparr>))
         \<and> attack d = own a ''Int64'' \<and> health d = own h ''Int64''
         \<and> tribe d = own t ''String''
         \<and> (map_of a ''Int64'' = None \<longrightarrow> attack d = JUndefined)
         \<and> (map_of h ''Int64'' = None \<longrightarrow> health d = JUndefined)
         \<and> (map_of t ''String'' = None \<longrightarrow> tribe d = JUndefined)))
   \<and> (own ps ''attack'' \<in> {JUndefined, JNull} \<or> own ps ''health'' \<in> {JUndefined, JNull}
        \<or> own ps ''tribe'' \<in> {JUndefined, JNull} \<longrightarrow>
      getProtoDataFromApi_then (JObj ps) this = Inl TypeError)"
proof (intro conjI impI)
  assume env: "own ps ''attack'' = JObj a \<and> own ps ''health'' = JObj h
    \<and> own ps ''tribe'' = JObj t"
  then have "js_get (own ps ''attack'') ''Int64'' = Inr (own a ''Int64'')"
    and "js_get (own ps ''health'') ''Int64'' = Inr (own h ''Int64'')"
    and "js_get (own ps ''tribe'') ''String'' = Inr (own t ''String'')"
    by simp_all
  then show "\<exists>d. getProtoDataFromApi_then (JObj ps) this =
             Inr (requestUpdate (this\<lparr>protoCardData := d, loading := False\<rparr>))
         \<and> attack d = own a ''Int64'' \<and> health d = own h ''Int64''
         \<and> tribe d = own t ''String''
         \<and> (map_of a ''Int64'' = None \<longrightarrow> attack d = JUndefined)
         \<and> (map_of h ''Int64'' = None \<longrightarrow> health d = JUndefined)
         \<and> (map_of t ''String'' = None \<longrightarrow> tribe d = JUndefined)"
    by (intro exI [of _ "\<lparr>type' = own ps ''type'', effect = own ps ''effect'',
          name = own ps ''name'', rarity = own ps ''rarity'', god = own ps ''god'',
          set' = own ps ''set'', tribe = own t ''String'', mana = own ps ''mana'',
          id' = own ps ''id'', attack = own a ''Int64'', health = own h ''Int64'',
          art_id = own ps ''art_id''\<rparr>"])
       (simp add: getProtoDataFromApi_then_def protoCardDataFromApi_object bind_err_def
          own_absent)
next
  assume "own ps ''attack'' \<in> {JUndefined, JNull} \<or> own ps ''health'' \<in> {JUndefined, JNull}
    \<or> own ps ''tribe'' \<in> {JUndefined, JNull}"
  then have "js_get (own ps ''attack'') ''Int64'' = Inl TypeError
         \<or> js_get (own ps ''health'') ''Int64'' = Inl TypeError
         \<or> js_get (own ps ''tribe'') ''String'' = Inl TypeError"
    by (auto simp: js_get_nullish)
  then have "protoCardDataFromApi (JObj ps) = Inl TypeError"
    by (rule protoCardDataFromApi_throws)
  then show "getProtoDataFromApi_then (JObj ps) this = Inl TypeError"
    by (simp add: getProtoDataFromApi_then_def bind_err_def)
qed

theorem absent_envelope_field_witness:
  "map_of [(''Valid'', JBool False)] ''Int64'' = None
   \<and> getProtoDataFromApi_then
       (JObj [(''id'', JNum 3), (''attack'', JObj [(''Valid'', JBool False)]),
              (''health'', JObj [(''Int64'', JNum 3)]), (''tribe'', JObj [])])
       (constructor 0 0) =
     Inr ((constructor 0 0)
       \<lparr>protoCardData :=
          \<lparr>type' = JUndefined, effect = JUndefined, name = JUndefined, rarity = JUndefined,
           god = JUndefined, set' = JUndefined, tribe = JUndefined, mana = JUndefined,
           id' = JNum 3, attack = JUndefined, health = JNum 3, art_id = JUndefined\<rparr>,
        loading := False, requestedUpdates := 1\<rparr>)
   \<and> own [(''id'', JNum 3), (''health'', JObj [(''Int64'', JNum 3)]), (''tribe'', JNull)]
       ''attack'' \<in> {JUndefined, JNull}
   \<and> getProtoDataFromApi_then
       (JObj [(''id'', JNum 3), (''health'', JObj [(''Int64'', JNum 3)]), (''tribe'', JNull)])
       (constructor 0 0) = Inl TypeError"
  using
    absent_envelope_field [of
      "[(''id'', JNum 3), (''attack'', JObj [(''Valid'', JBool False)]),
        (''health'', JObj [(''Int64'', JNum 3)]), (''tribe'', JObj [])]"
      "[(''Valid'', JBool False)]" "[(''Int64'', JNum 3)]" "[]" "constructor 0 0"]
    absent_envelope_field [of
      "[(''id'', JNum 3), (''health'', JObj [(''Int64'', JNum 3)]), (''tribe'', JNull)]"
      "[]" "[]" "[]" "constructor 0 0"]
  by (simp add: own_def getProtoDataFromApi_then_def protoCardDataFromApi_def bind_err_def
      requestUpdate_def constructor_def constructorBody_def propertyInitialisers_def)

text \<open>
  C3, as the claim words it. A body whose \<open>attack\<close> lacks \<open>Int64\<close> raises no error:
  the callback returns normally, having stored \<open>undefined\<close> as the attack and cleared
  \<open>loading\<close>.
\<close>

theorem missing_Int64_stored_silently:
  "getProtoDataFromApi_then
     (body (JStr ''Pyramid Warden'') (JObj [(''Valid'', JBool False)])
        (JObj [(''Int64'', JNum 3), (''Valid'', JBool True)])
        (JObj [(''String'', JStr ''beast''), (''Valid'', JBool True)]))
     (constructor 0 0) =
   Inr ((constructor 0 0)
     \<lparr>protoCardData := stored (JStr ''Pyramid Warden'') JUndefined (JNum 3) (JStr ''beast''),
      loading := False, requestedUpdates := 1\<rparr>)"
  by (simp add: getProtoDataFromApi_then_def protoCardDataFromApi_body own_def bind_err_def
      requestUpdate_def constructor_def constructorBody_def propertyInitialisers_def)

section \<open>Fetches that resolve out of order\<close>

lemma drop_nth_append_two:
  "drop_nth (Suc (length xs)) (xs @ [a, b]) = xs @ [a]"
  "drop_nth (length xs) (xs @ [a]) = xs"
  by (simp_all add: drop_nth_def)

lemma step_FetchResolved:
  assumes "k < length (inflight w)" and "protoCardDataFromApi data = Inr d"
  shows "step (FetchResolved k data) w =
     w\<lparr>card := requestUpdate ((card w)\<lparr>protoCardData := d, loading := False\<rparr>),
       inflight := drop_nth k (inflight w)\<rparr>"
  using assms by (simp add: getProtoDataFromApi_then_def bind_err_def)

text \<open>
  C4, as the code has it. The card keeps no record of which fetch is the current one,
  and the callback stores whatever body it is given. When \<open>protoId\<close> is set to \<open>a\<close> and
  then to \<open>b\<close>, and the fetch for \<open>b\<close> resolves before the fetch for \<open>a\<close>, both with
  bodies the callback accepts, the card holds the data of \<open>b\<close> after the first
  resolution and the data of \<open>a\<close> after the second, while its \<open>protoId\<close> is \<open>b\<close>.
\<close>

theorem last_resolved_fetch_wins:
  assumes "protoCardDataFromApi dataA = Inr dA" and "protoCardDataFromApi dataB = Inr dB"
  shows "protoCardData (card (run [SetProtoId a, SetProtoId b,
             FetchResolved (Suc (length (inflight w))) dataB] w)) = dB
       \<and> protoCardData (card (run [SetProtoId a, SetProtoId b,
             FetchResolved (Suc (length (inflight w))) dataB,
             FetchResolved (length (inflight w)) dataA] w)) = dA
       \<and> protoId (card (run [SetProtoId a, SetProtoId b,
             FetchResolved (Suc (length (inflight w))) dataB,
             FetchResolved (length (inflight w)) dataA] w)) = b
       \<and> \<not> loading (card (run [SetProtoId a, SetProtoId b,
             FetchResolved (Suc (length (inflight w))) dataB,
             FetchResolved (length (inflight w)) dataA] w))
       \<and> inflight (run [SetProtoId a, SetProtoId b,
             FetchResolved (Suc (length (inflight w))) dataB,
             FetchResolved (length (inflight w)) dataA] w) = inflight w"
proof -
  define w2 where "w2 = step (SetProtoId b) (step (SetProtoId a) w)"
  have w2: "inflight w2 = inflight w @ [a, b]" "protoId (card w2) = b"
    by (simp_all add: w2_def getProtoDataFromApi_def fetchProtoData_def)
  define w3 where "w3 = step (FetchResolved (Suc (length (inflight w))) dataB) w2"
  have w3: "w3 = w2\<lparr>card := requestUpdate ((card w2)\<lparr>protoCardData := dB, loading := False\<rparr>),
               inflight := inflight w @ [a]\<rparr>"
    unfolding w3_def
    using step_FetchResolved [of "Suc (length (inflight w))" w2 dataB dB] assms(2)
    by (simp add: w2 drop_nth_append_two del: step.simps)
  define w4 where "w4 = step (FetchResolved (length (inflight w)) dataA) w3"
  have w4: "w4 = w3\<lparr>card := requestUpdate ((card w3)\<lparr>protoCardData := dA, loading := False\<rparr>),
               inflight := inflight w\<rparr>"
    unfolding w4_def
    using step_FetchResolved [of "length (inflight w)" w3 dataA dA] assms(1)
    by (simp add: w3 drop_nth_append_two del: step.simps)
  have run3: "run [SetProtoId a, SetProtoId b,
      FetchResolved (Suc (length (inflight w))) dataB] w = w3"
    by (simp add: w3_def w2_def del: step.simps)
  have run4: "run [SetProtoId a, SetProtoId b,
      FetchResolved (Suc (length (inflight w))) dataB,
      FetchResolved (length (inflight w)) dataA] w = w4"
    by (simp add: w4_def w3_def w2_def del: step.simps)
  show ?thesis
    unfolding run3 run4
    by (simp add: w4 w3 w2 requestUpdate_def)
qed

theorem last_resolved_fetch_wins_witness:
  "protoCardData (card (run [SetProtoId (JNum 1), SetProtoId (JNum 2),
      FetchResolved 1 (body (JStr ''B'') (JObj [(''Int64'', JNum 2)]) (JObj [(''Int64'', JNum 2)])
        (JObj [(''String'', JStr ''beast'')])),
      FetchResolved 0 (body (JStr ''A'') (JObj [(''Int64'', JNum 1)]) (JObj [(''Int64'', JNum 1)])
        (JObj [(''String'', JStr ''beast'')]))]
      \<lparr>card = constructor 0 0, inflight = []\<rparr>)) =
     stored (JStr ''A'') (JNum 1) (JNum 1) (JStr ''beast'')
   \<and> protoId (card (run [SetProtoId (JNum 1), SetProtoId (JNum 2),
      FetchResolved 1 (body (JStr ''B'') (JObj [(''Int64'', JNum 2)]) (JObj [(''Int64'', JNum 2)])
        (JObj [(''String'', JStr ''beast'')])),
      FetchResolved 0 (body (JStr ''A'') (JObj [(''Int64'', JNum 1)]) (JObj [(''Int64'', JNum 1)])
        (JObj [(''String'', JStr ''beast'')]))]
      \<lparr>card = constructor 0 0, inflight = []\<rparr>)) = JNum 2"
proof -
  have A: "protoCardDataFromApi (body (JStr ''A'') (JObj [(''Int64'', JNum 1)])
      (JObj [(''Int64'', JNum 1)]) (JObj [(''String'', JStr ''beast'')])) =
      Inr (stored (JStr ''A'') (JNum 1) (JNum 1) (JStr ''beast''))"
    by (simp add: protoCardDataFromApi_body own_def)
  have B: "protoCardDataFromApi (body (JStr ''B'') (JObj [(''Int64'', JNum 2)])
      (JObj [(''Int64'', JNum 2)]) (JObj [(''String'', JStr ''beast'')])) =
      Inr (stored (JStr ''B'') (JNum 2) (JNum 2) (JStr ''beast''))"
    by (simp add: protoCardDataFromApi_body own_def)
  from last_resolved_fetch_wins [OF A B, of "JNum 1" "JNum 2"
      "\<lparr>card = constructor 0 0, inflight = []\<rparr>"]
  show ?thesis by simp
qed

text \<open>
  C4, as the claim words it. \<open>protoId\<close> is set to 1 and then to 2; the fetch for 2
  resolves first, the fetch for 1 after it. The card then shows the card of the
  superseded request 1, not that of the current request 2.
\<close>

theorem stale_fetch_overwrites:
  "name (protoCardData (card (run [SetProtoId (JNum 1), SetProtoId (JNum 2),
      FetchResolved 1 (body (JStr ''B'') (JObj [(''Int64'', JNum 2)]) (JObj [(''Int64'', JNum 2)])
        (JObj [(''String'', JStr ''beast'')])),
      FetchResolved 0 (body (JStr ''A'') (JObj [(''Int64'', JNum 1)]) (JObj [(''Int64'', JNum 1)])
        (JObj [(''String'', JStr ''beast'')]))]
      \<lparr>card = constructor 0 0, inflight = []\<rparr>))) = JStr ''A''
   \<and> protoId (card (run [SetProtoId (JNum 1), SetProtoId (JNum 2),
      FetchResolved 1 (body (JStr ''B'') (JObj [(''Int64'', JNum 2)]) (JObj [(''Int64'', JNum 2)])
        (JObj [(''String'', JStr ''beast'')])),
      FetchResolved 0 (body (JStr ''A'') (JObj [(''Int64'', JNum 1)]) (JObj [(''Int64'', JNum 1)])
        (JObj [(''String'', JStr ''beast'')]))]
      \<lparr>card = constructor 0 0, inflight = []\<rparr>)) = JNum 2"
  by (simp add: getProtoDataFromApi_def fetchProtoData_def getProtoDataFromApi_then_def
      protoCardDataFromApi_body own_def bind_err_def requestUpdate_def drop_nth_def stored_def)

section \<open>Resize notifications\<close>

subsection \<open>The product with 0.01 is within one part in \<open>2 ^ 52\<close> of the hundredth\<close>

lemma excess_bits_fits: "n div 2 ^ excess_bits n < 2 ^ 53"
proof (induction n rule: excess_bits.induct)
  case (1 n)
  show ?case
  proof (cases "n < 2 ^ 53")
    case True
    then show ?thesis by (simp add: excess_bits.simps [of n])
  next
    case False
    with 1 have "n div 2 div 2 ^ excess_bits (n div 2) < 2 ^ 53" by simp
    with False show ?thesis
      by (simp add: excess_bits.simps [of n] div_mult2_eq)
  qed
qed

lemma excess_bits_large: "0 < excess_bits n \<Longrightarrow> 2 ^ (52 + excess_bits n) \<le> n"
proof (induction n rule: excess_bits.induct)
  case (1 n)
  from "1.prems" have big: "\<not> n < 2 ^ 53"
    by (auto simp: excess_bits.simps [of n] split: if_splits)
  then have eq: "excess_bits n = Suc (excess_bits (n div 2))"
    by (simp add: excess_bits.simps [of n])
  show ?case
  proof (cases "excess_bits (n div 2)")
    case 0
    with eq big show ?thesis by simp
  next
    case (Suc k)
    with "1.IH" big have "2 ^ (52 + excess_bits (n div 2)) \<le> n div 2" by simp
    then have "2 * 2 ^ (52 + excess_bits (n div 2)) \<le> 2 * (n div 2)" by simp
    also have "\<dots> \<le> n" by simp
    finally show ?thesis by (simp add: eq power_add)
  qed
qed

lemma round_to_53_near:
  "2 * round_to_53 n \<le> 2 * n + 2 ^ excess_bits n
   \<and> 2 * n \<le> 2 * round_to_53 n + 2 ^ excess_bits n"
proof -
  define s where "s = excess_bits n"
  define q where "q = n div 2 ^ s"
  define r where "r = n mod 2 ^ s"
  have n: "n = q * 2 ^ s + r"
    unfolding q_def r_def by (rule div_mult_mod_eq [symmetric])
  have r: "r < 2 ^ s" by (simp add: r_def)
  show ?thesis
  proof (cases "2 ^ s < 2 * r \<or> (2 * r = 2 ^ s \<and> odd q)")
    case True
    then have "round_to_53 n = (q + 1) * 2 ^ s"
      by (simp add: round_to_53_def Let_def s_def q_def r_def)
    with True n r show ?thesis unfolding s_def [symmetric]
      by (auto simp: algebra_simps)
  next
    case False
    then have "round_to_53 n = q * 2 ^ s"
      by (simp add: round_to_53_def Let_def s_def q_def r_def)
    with False n r show ?thesis unfolding s_def [symmetric]
      by (auto simp: algebra_simps)
  qed
qed

lemma round_to_53_exact: "excess_bits n = 0 \<Longrightarrow> round_to_53 n = n"
  by (simp add: round_to_53_def)

lemma half_apart:
  fixes x y e :: rat
  assumes "2 * x \<le> 2 * y + e" and "2 * y \<le> 2 * x + e"
  shows "2 * \<bar>x - y\<bar> \<le> e"
  using assms by (simp add: abs_if)

lemma round_to_53_error:
  "\<bar>rat_of_nat (round_to_53 n) - rat_of_nat n\<bar> \<le> rat_of_nat n / 2 ^ 53"
proof (cases "excess_bits n")
  case 0
  then show ?thesis by (simp add: round_to_53_exact)
next
  case (Suc k)
  with excess_bits_large [of n] have "2 ^ (52 + excess_bits n) \<le> n" by simp
  then have "rat_of_nat (2 ^ (52 + excess_bits n)) \<le> rat_of_nat n"
    by (rule of_nat_mono)
  then have big: "(2::rat) ^ 52 * 2 ^ excess_bits n \<le> rat_of_nat n"
    by (simp add: power_add)
  from round_to_53_near [of n]
  have "rat_of_nat (2 * round_to_53 n) \<le> rat_of_nat (2 * n + 2 ^ excess_bits n)"
    and "rat_of_nat (2 * n) \<le> rat_of_nat (2 * round_to_53 n + 2 ^ excess_bits n)"
    by (simp_all only: of_nat_le_iff)
  then have "2 * rat_of_nat (round_to_53 n) \<le> 2 * rat_of_nat n + 2 ^ excess_bits n"
    and "2 * rat_of_nat n \<le> 2 * rat_of_nat (round_to_53 n) + 2 ^ excess_bits n"
    by simp_all
  then have "2 * \<bar>rat_of_nat (round_to_53 n) - rat_of_nat n\<bar> \<le> 2 ^ excess_bits n"
    by (rule half_apart)
  with big have "2 ^ 53 * \<bar>rat_of_nat (round_to_53 n) - rat_of_nat n\<bar> \<le> rat_of_nat n"
    by simp
  then show ?thesis by (simp add: le_divide_eq mult.commute)
qed

lemma times_0_01_error:
  "\<bar>times_0_01 h - rat_of_nat h / 100\<bar> \<le> rat_of_nat h / 100 / 2 ^ 52"
proof -
  define n where "n = h * 5764607523034235"
  have n: "rat_of_nat n = rat_of_nat h * 5764607523034235" by (simp add: n_def)
  have "\<bar>times_0_01 h - rat_of_nat n / 2 ^ 59\<bar> =
      \<bar>rat_of_nat (round_to_53 n) - rat_of_nat n\<bar> / 2 ^ 59"
    by (simp add: times_0_01_def n_def diff_divide_distrib [symmetric])
  also have "\<dots> \<le> rat_of_nat n / 2 ^ 53 / 2 ^ 59"
    by (intro divide_right_mono round_to_53_error) simp
  finally have a: "\<bar>times_0_01 h - rat_of_nat n / 2 ^ 59\<bar> \<le> rat_of_nat n / 2 ^ 53 / 2 ^ 59" .
  have b: "\<bar>rat_of_nat n / 2 ^ 59 - rat_of_nat h / 100\<bar> = rat_of_nat h * (12 / (100 * 2 ^ 59))"
    by (simp add: n abs_if field_simps)
  have "\<bar>times_0_01 h - rat_of_nat h / 100\<bar> \<le>
      \<bar>times_0_01 h - rat_of_nat n / 2 ^ 59\<bar> + \<bar>rat_of_nat n / 2 ^ 59 - rat_of_nat h / 100\<bar>"
    by simp
  also have "\<dots> \<le> rat_of_nat n / 2 ^ 53 / 2 ^ 59 + rat_of_nat h * (12 / (100 * 2 ^ 59))"
    using a b by simp
  also have "\<dots> \<le> rat_of_nat h / 100 / 2 ^ 52"
    by (simp add: n field_simps)
  finally show ?thesis .
qed

lemma times_0_01_examples:
  "times_0_01 100 = 1" "times_0_01 200 = 2" "times_0_01 300 = 3" "times_0_01 400 = 4"
  by (simp_all add: times_0_01_def round_to_53_def excess_bits.simps)

subsection \<open>Entries are handled one by one, in their order\<close>

lemma handleResize_container:
  "container event = Some c \<Longrightarrow>
   handleResize event this =
     Inr (this\<lparr>ch := times_0_01 (offsetHeight c), cw := times_0_01 (offsetWidth c),
            requestedUpdates := Suc (requestedUpdates this)\<rparr>)"
  by (simp add: handleResize_def requestUpdate_def)

lemma handleResize_no_container:
  "container event = None \<Longrightarrow> handleResize event this = Inl TypeError"
  by (simp add: handleResize_def)

lemma handleResize_ignores_content_size:
  "handleResize (event\<lparr>contentHeight := H, contentWidth := W\<rparr>) this = handleResize event this"
  by (simp add: handleResize_def container_def)

lemma ro_take:
  assumes "map container entries = map Some cs" and "k < length cs"
  shows "ro (take (Suc k) entries) this =
     (this\<lparr>ch := times_0_01 (offsetHeight (cs ! k)),
           cw := times_0_01 (offsetWidth (cs ! k)),
           requestedUpdates := requestedUpdates this + Suc k\<rparr>, None)"
  using assms
proof (induction entries arbitrary: cs k this)
  case Nil
  then show ?case by simp
next
  case (Cons entry entries)
  then obtain c cs' where cs: "cs = c # cs'" "container entry = Some c"
      "map container entries = map Some cs'"
    by (cases cs) auto
  show ?case
  proof (cases k)
    case 0
    with cs show ?thesis by (simp add: handleResize_container)
  next
    case (Suc k')
    with Cons.prems cs have "k' < length cs'" by simp
    from Cons.IH [OF cs(3) this] Suc cs show ?thesis
      by (simp add: handleResize_container)
  qed
qed

lemma ro_append:
  "ro entries this = (mid, None) \<Longrightarrow> ro (entries @ later) this = ro later mid"
proof (induction entries arbitrary: this)
  case Nil
  then show ?case by simp
next
  case (Cons entry entries)
  then show ?case by (cases "handleResize entry this") simp_all
qed

lemma ro_throws:
  "container event = None \<Longrightarrow> ro (event # later) this = (this, Some TypeError)"
  by (simp add: handleResize_no_container)

lemma run_single_entries:
  "ro entries (card w) = (el, None) \<Longrightarrow>
   run (map (\<lambda>entry. ResizeEntries [entry]) entries) w = w\<lparr>card := el\<rparr>"
proof (induction entries arbitrary: w)
  case Nil
  then show ?case by simp
next
  case (Cons entry entries)
  show ?case
  proof (cases "handleResize entry (card w)")
    case (Inl e)
    with Cons.prems show ?thesis by simp
  next
    case (Inr mid)
    with Cons.prems have "ro entries (card (w\<lparr>card := mid\<rparr>)) = (el, None)" by simp
    from Cons.IH [OF this] Inr show ?thesis by simp
  qed
qed

text \<open>
  C9, as the code has it. \<open>handleResize\<close> does not read the content size that the
  entry reports; it measures the container, the first child of the shadow root of
  the target. Of a sequence of entries that each have their container, the card
  handles every one, in the order of arrival: after the first \<open>k + 1\<close> of them,
  whether they came in one callback of the observer or in one callback each, \<open>ch\<close> and
  \<open>cw\<close> are the products of 0.01 with \<open>offsetHeight\<close> and \<open>offsetWidth\<close> of the
  container of entry \<open>k\<close>, \<open>k + 1\<close> updates have been requested, and nothing else has
  changed. The products are doubles, within one part in \<open>2 ^ 52\<close> of the hundredth.
  An entry without container makes \<open>handleResize\<close> throw a TypeError: that entry
  changes nothing, the entries after it in the same callback are not handled, and
  what the entries before it have set stays.
\<close>

theorem resize_entries_in_order:
  assumes "map container entries = map Some cs" and "k < length cs"
  shows "ro (take (Suc k) entries) this =
           (this\<lparr>ch := times_0_01 (offsetHeight (cs ! k)),
                 cw := times_0_01 (offsetWidth (cs ! k)),
                 requestedUpdates := requestedUpdates this + Suc k\<rparr>, None)
       \<and> card (run (map (\<lambda>entry. ResizeEntries [entry]) (take (Suc k) entries))
            \<lparr>card = this, inflight = fetches\<rparr>) =
           this\<lparr>ch := times_0_01 (offsetHeight (cs ! k)),
                cw := times_0_01 (offsetWidth (cs ! k)),
                requestedUpdates := requestedUpdates this + Suc k\<rparr>
       \<and> \<bar>times_0_01 (offsetHeight (cs ! k)) - rat_of_nat (offsetHeight (cs ! k)) / 100\<bar>
           \<le> rat_of_nat (offsetHeight (cs ! k)) / 100 / 2 ^ 52
       \<and> \<bar>times_0_01 (offsetWidth (cs ! k)) - rat_of_nat (offsetWidth (cs ! k)) / 100\<bar>
           \<le> rat_of_nat (offsetWidth (cs ! k)) / 100 / 2 ^ 52
       \<and> handleResize (event\<lparr>contentHeight := H, contentWidth := W\<rparr>) this =
           handleResize event this
       \<and> (container bad = None \<longrightarrow>
            ro (bad # later) this = (this, Some TypeError)
          \<and> ro (take (Suc k) entries @ bad # later) this =
              (this\<lparr>ch := times_0_01 (offsetHeight (cs ! k)),
                    cw := times_0_01 (offsetWidth (cs ! k)),
                    requestedUpdates := requestedUpdates this + Suc k\<rparr>, Some TypeError)
          \<and> card (step (ResizeEntries (take (Suc k) entries @ bad # later))
               \<lparr>card = this, inflight = fetches\<rparr>) =
              this\<lparr>ch := times_0_01 (offsetHeight (cs ! k)),
                   cw := times_0_01 (offsetWidth (cs ! k)),
                   requestedUpdates := requestedUpdates this + Suc k\<rparr>)"
proof -
  let ?el = "this\<lparr>ch := times_0_01 (offsetHeight (cs ! k)),
                cw := times_0_01 (offsetWidth (cs ! k)),
                requestedUpdates := requestedUpdates this + Suc k\<rparr>"
  have one: "ro (take (Suc k) entries) this = (?el, None)"
    using assms by (rule ro_take)
  then have "ro (take (Suc k) entries) (card \<lparr>card = this, inflight = fetches\<rparr>) = (?el, None)"
    by simp
  then have each: "card (run (map (\<lambda>entry. ResizeEntries [entry]) (take (Suc k) entries))
      \<lparr>card = this, inflight = fetches\<rparr>) = ?el"
    by (simp only: run_single_entries) simp
  have size: "handleResize (event\<lparr>contentHeight := H, contentWidth := W\<rparr>) this =
      handleResize event this"
    by (rule handleResize_ignores_content_size)
  have thrown: "ro (bad # later) this = (this, Some TypeError)
      \<and> ro (take (Suc k) entries @ bad # later) this = (?el, Some TypeError)
      \<and> card (step (ResizeEntries (take (Suc k) entries @ bad # later))
           \<lparr>card = this, inflight = fetches\<rparr>) = ?el"
    if bad: "container bad = None"
  proof -
    have "ro (take (Suc k) entries @ bad # later) this = ro (bad # later) ?el"
      using one by (rule ro_append)
    then have cut: "ro (take (Suc k) entries @ bad # later) this = (?el, Some TypeError)"
      by (simp only: ro_throws [OF bad])
    then have "card (step (ResizeEntries (take (Suc k) entries @ bad # later))
        \<lparr>card = this, inflight = fetches\<rparr>) = ?el"
      by simp
    with cut ro_throws [OF bad, of later this] show ?thesis by blast
  qed
  from one each size thrown times_0_01_error [of "offsetHeight (cs ! k)"]
    times_0_01_error [of "offsetWidth (cs ! k)"]
  show ?thesis by blast
qed

theorem resize_entries_in_order_witness:
  "ro [\<lparr>contentHeight = 640, contentWidth = 480,
        shadowRootChildren = Some [\<lparr>offsetHeight = 200, offsetWidth = 100\<rparr>]\<rparr>]
      (constructor 0 0) =
     ((constructor 0 0)\<lparr>ch := 2, cw := 1, requestedUpdates := 1\<rparr>, None)
   \<and> ro [\<lparr>contentHeight = 640, contentWidth = 480,
           shadowRootChildren = Some [\<lparr>offsetHeight = 200, offsetWidth = 100\<rparr>]\<rparr>,
         \<lparr>contentHeight = 800, contentWidth = 600,
           shadowRootChildren = Some [\<lparr>offsetHeight = 400, offsetWidth = 300\<rparr>]\<rparr>]
      (constructor 0 0) =
     ((constructor 0 0)\<lparr>ch := 4, cw := 3, requestedUpdates := 2\<rparr>, None)
   \<and> card (run
        [ResizeEntries [\<lparr>contentHeight = 640, contentWidth = 480,
           shadowRootChildren = Some [\<lparr>offsetHeight = 200, offsetWidth = 100\<rparr>]\<rparr>],
         ResizeEntries [\<lparr>contentHeight = 800, contentWidth = 600,
           shadowRootChildren = Some [\<lparr>offsetHeight = 400, offsetWidth = 300\<rparr>]\<rparr>]]
        \<lparr>card = constructor 0 0, inflight = []\<rparr>) =
     (constructor 0 0)\<lparr>ch := 4, cw := 3, requestedUpdates := 2\<rparr>
   \<and> container \<lparr>contentHeight = 700, contentWidth = 500, shadowRootChildren = Some []\<rparr> = None
   \<and> ro [\<lparr>contentHeight = 640, contentWidth = 480,
           shadowRootChildren = Some [\<lparr>offsetHeight = 200, offsetWidth = 100\<rparr>]\<rparr>,
         \<lparr>contentHeight = 700, contentWidth = 500, shadowRootChildren = Some []\<rparr>,
         \<lparr>contentHeight = 800, contentWidth = 600,
           shadowRootChildren = Some [\<lparr>offsetHeight = 400, offsetWidth = 300\<rparr>]\<rparr>]
      (constructor 0 0) =
     ((constructor 0 0)\<lparr>ch := 2, cw := 1, requestedUpdates := 1\<rparr>, Some TypeError)
   \<and> card (step (ResizeEntries
        [\<lparr>contentHeight = 640, contentWidth = 480,
           shadowRootChildren = Some [\<lparr>offsetHeight = 200, offsetWidth = 100\<rparr>]\<rparr>,
         \<lparr>contentHeight = 700, contentWidth = 500, shadowRootChildren = Some []\<rparr>,
         \<lparr>contentHeight = 800, contentWidth = 600,
           shadowRootChildren = Some [\<lparr>offsetHeight = 400, offsetWidth = 300\<rparr>]\<rparr>])
        \<lparr>card = constructor 0 0, inflight = []\<rparr>) =
     (constructor 0 0)\<lparr>ch := 2, cw := 1, requestedUpdates := 1\<rparr>"
proof -
  let ?e1 = "\<lparr>contentHeight = 640, contentWidth = 480,
    shadowRootChildren = Some [\<lparr>offsetHeight = 200, offsetWidth = 100\<rparr>]\<rparr>"
  let ?e2 = "\<lparr>contentHeight = 800, contentWidth = 600,
    shadowRootChildren = Some [\<lparr>offsetHeight = 400, offsetWidth = 300\<rparr>]\<rparr>"
  let ?bad = "\<lparr>contentHeight = 700, contentWidth = 500, shadowRootChildren = Some []\<rparr>"
  let ?cs = "[\<lparr>offsetHeight = 200, offsetWidth = 100\<rparr>, \<lparr>offsetHeight = 400, offsetWidth = 300\<rparr>]"
  have cs: "map container [?e1, ?e2] = map Some ?cs"
    by (simp add: container_def)
  have bad: "container ?bad = None"
    by (simp add: container_def)
  have zero: "requestedUpdates (constructor 0 0) = 0"
    by (simp add: constructor_def constructorBody_def propertyInitialisers_def)
  from resize_entries_in_order [OF cs, where k = 0 and this = "constructor 0 0"
      and fetches = "[]" and bad = ?bad and later = "[?e2]"]
    resize_entries_in_order [OF cs, where k = 1 and this = "constructor 0 0"
      and fetches = "[]" and bad = ?bad and later = "[]"]
  show ?thesis
    by (simp add: times_0_01_examples zero bad del: ro.simps step.simps run.simps)
qed

text \<open>
  C9, as the claim words it. The observer reports a content size of 200 by 100 and
  then of 400 by 300, while the container measures 100 by 100 and then 300 by 300:
  the size units are 1 and 1, then 3 and 3, not 2 and 1, then 4 and 3. And when the
  first of two entries of one callback has no container, the card is left as it
  was: the second entry is dropped and no update is requested.
\<close>

theorem resize_ignores_observed_size:
  "ro [\<lparr>contentHeight = 200, contentWidth = 100,
        shadowRootChildren = Some [\<lparr>offsetHeight = 100, offsetWidth = 100\<rparr>]\<rparr>]
      (constructor 0 0) =
     ((constructor 0 0)\<lparr>ch := 1, cw := 1, requestedUpdates := 1\<rparr>, None)
   \<and> ro [\<lparr>contentHeight = 200, contentWidth = 100,
           shadowRootChildren = Some [\<lparr>offsetHeight = 100, offsetWidth = 100\<rparr>]\<rparr>,
         \<lparr>contentHeight = 400, contentWidth = 300,
           shadowRootChildren = Some [\<lparr>offsetHeight = 300, offsetWidth = 300\<rparr>]\<rparr>]
      (constructor 0 0) =
     ((constructor 0 0)\<lparr>ch := 3, cw := 3, requestedUpdates := 2\<rparr>, None)
   \<and> ro [\<lparr>contentHeight = 200, contentWidth = 100, shadowRootChildren = Some []\<rparr>,
         \<lparr>contentHeight = 400, contentWidth = 300,
           shadowRootChildren = Some [\<lparr>offsetHeight = 400, offsetWidth = 300\<rparr>]\<rparr>]
      (constructor 0 0) =
     (constructor 0 0, Some TypeError)"
  by (simp add: handleResize_def container_def requestUpdate_def times_0_01_examples
      constructor_def constructorBody_def propertyInitialisers_def)

end
